theory Spec2Isabelle
  imports Complex_Main
begin

section \<open>Data model of \<open>main.py\<close>\<close>

text \<open>
  The dataclasses of the source become records. Every string field is filled from
  \<open>Element.get\<close>, which returns \<open>None\<close> for an absent attribute, so string fields are
  \<open>string option\<close>. Python's \<open>float\<close> is modelled by \<open>real\<close>: the model covers finite
  values with exact arithmetic; rounding, infinities and NaN are outside it.
  Field names that occur in two dataclasses are prefixed in the second one
  (\<open>ai_\<close> for AccountInformation, \<open>lot_\<close> for Lot), since record fields share one name space.
\<close>

datatype error = ParseError | ValueError | TypeError | AttributeError | OSError

record AccountInformation =
  ai_accountId :: "string option"
  ai_acctAlias :: "string option"
  ai_currency :: "string option"
  ai_dateOpened :: "string option"

record Trade =
  symbol :: "string option"
  transactionType :: "string option"
  exchange :: "string option"
  quantity :: real
  tradePrice :: real
  currency :: "string option"
  fxRateToBase :: real
  assetCategory :: "string option"
  ibCommission :: real
  ibCommissionCurrency :: "string option"
  tradeDate :: "string option"

record Lot =
  lot_symbol :: "string option"
  lot_transactionType :: "string option"
  lot_exchange :: "string option"
  lot_quantity :: real
  lot_tradePrice :: real
  lot_currency :: "string option"
  lot_fxRateToBase :: real
  lot_assetCategory :: "string option"
  lot_ibCommission :: "string option"
  lot_ibCommissionCurrency :: "string option"
  lot_tradeDate :: "string option"

record Trades =
  trade :: "Trade list"
  lot :: "Lot list"

record FlexStatement =
  accountId :: "string option"
  fromDate :: "string option"
  toDate :: "string option"
  period :: "string option"
  whenGenerated :: "string option"
  accountInformation :: "AccountInformation option"
  trades :: "Trades option"

record FlexStatements =
  count :: int
  flexStatement :: "FlexStatement list"

record FlexQueryResponse =
  queryName :: "string option"
  type :: "string option"
  flexStatements :: "FlexStatements option"

record CgtCalculatorTrade =
  side :: string
  date :: "string option"
  company :: "string option"
  shares :: int
  price :: real
  charges :: real
  tax :: int

section \<open>Methods of \<open>Trade\<close> and \<open>convert\<close>\<close>

definition Trade_side :: "Trade \<Rightarrow> string" where
  "Trade_side t = (if quantity t < 0 then ''SELL'' else ''BUY'')"

definition tradePriceInBaseCurrency :: "Trade \<Rightarrow> real" where
  "tradePriceInBaseCurrency t = \<bar>tradePrice t * fxRateToBase t\<bar>"

definition ibCommissionInBaseCurrency :: "Trade \<Rightarrow> real" where
  "ibCommissionInBaseCurrency t =
     (let c = \<bar>ibCommission t\<bar>
      in if ibCommissionCurrency t = currency t then c * fxRateToBase t else c)"

text \<open>Python's \<open>int\<close> on a float truncates toward zero.\<close>

definition int_of_float :: "real \<Rightarrow> int" where
  "int_of_float x = (if x < 0 then \<lceil>x\<rceil> else \<lfloor>x\<rfloor>)"

definition convert :: "Trade \<Rightarrow> CgtCalculatorTrade" where
  "convert ibkrTrade =
     \<lparr> side = Trade_side ibkrTrade,
       date = tradeDate ibkrTrade,
       company = symbol ibkrTrade,
       shares = int_of_float \<bar>quantity ibkrTrade\<bar>,
       price = tradePriceInBaseCurrency ibkrTrade,
       charges = ibCommissionInBaseCurrency ibkrTrade,
       tax = 0 \<rparr>"

section \<open>The flattening loops of \<open>get_trades_from_xmls\<close>\<close>

text \<open>
  The three nested \<open>for\<close> loops, innermost first; \<open>acc\<close> is the list \<open>trades\<close> that the
  source appends to. Reading \<open>.flexStatement\<close> or \<open>.trade\<close> of \<open>None\<close> raises
  AttributeError, which nothing in \<open>get_trades_from_xmls\<close> catches.
\<close>

fun trade_loop :: "Trade list \<Rightarrow> CgtCalculatorTrade list \<Rightarrow> CgtCalculatorTrade list" where
  "trade_loop [] acc = acc"
| "trade_loop (txn # txns) acc =
     (if assetCategory txn = Some ''CASH'' then trade_loop txns acc
      else trade_loop txns (acc @ [convert txn]))"

fun statement_loop ::
  "FlexStatement list \<Rightarrow> CgtCalculatorTrade list \<Rightarrow> error + CgtCalculatorTrade list" where
  "statement_loop [] acc = Inr acc"
| "statement_loop (statement # statements) acc =
     (case trades statement of
        None \<Rightarrow> Inl AttributeError
      | Some tb \<Rightarrow> statement_loop statements (trade_loop (trade tb) acc))"

fun data_loop ::
  "FlexQueryResponse list \<Rightarrow> CgtCalculatorTrade list \<Rightarrow> error + CgtCalculatorTrade list" where
  "data_loop [] acc = Inr acc"
| "data_loop (data # rest) acc =
     (case flexStatements data of
        None \<Rightarrow> Inl AttributeError
      | Some coll \<Rightarrow>
          (case statement_loop (flexStatement coll) acc of
             Inl e \<Rightarrow> Inl e
           | Inr acc' \<Rightarrow> data_loop rest acc'))"

text \<open>The body of \<open>get_trades_from_xmls\<close> after \<open>process_xml_files\<close> has returned.\<close>

definition get_trades :: "FlexQueryResponse list \<Rightarrow> error + CgtCalculatorTrade list" where
  "get_trades parsed_data = data_loop parsed_data []"

section \<open>The element tree\<close>

text \<open>
  An \<open>xml.etree.ElementTree\<close> element, as far as \<open>parse_xml\<close> looks at it: its tag, its
  attributes and its child elements in document order. \<open>get\<close> is \<open>Element.get\<close>,
  \<open>find_elem\<close> is \<open>Element.find\<close> (the first direct child with the tag, or \<open>None\<close>)
  and \<open>findall\<close> is \<open>Element.findall\<close> (all direct children with the tag, in order).
\<close>

datatype Element = Element (tag: string) (attrib: "(string \<times> string) list") (children: "Element list")

definition get :: "Element \<Rightarrow> string \<Rightarrow> string option" where
  "get e k = map_of (attrib e) k"

definition find_elem :: "Element \<Rightarrow> string \<Rightarrow> Element option" where
  "find_elem e t = List.find (\<lambda>c. tag c = t) (children e)"

definition findall :: "Element \<Rightarrow> string \<Rightarrow> Element list" where
  "findall e t = filter (\<lambda>c. tag c = t) (children e)"

section \<open>\<open>parse_xml\<close>\<close>

text \<open>
  The builtins \<open>float\<close> and \<open>int\<close> on strings and \<open>ET.fromstring\<close> are library code;
  they are parameters of the model: \<open>to_float s = None\<close> and \<open>to_int s = None\<close> stand for
  ValueError on the text \<open>s\<close>, \<open>fromstring s = None\<close> for \<open>ET.ParseError\<close>.
  Applied to \<open>None\<close> (an absent attribute), \<open>float\<close> and \<open>int\<close> raise TypeError.
\<close>

definition float_attr :: "(string \<Rightarrow> real option) \<Rightarrow> Element \<Rightarrow> string \<Rightarrow> error + real" where
  "float_attr to_float e k =
     (case get e k of
        None \<Rightarrow> Inl TypeError
      | Some s \<Rightarrow> (case to_float s of None \<Rightarrow> Inl ValueError | Some x \<Rightarrow> Inr x))"

definition int_attr :: "(string \<Rightarrow> int option) \<Rightarrow> Element \<Rightarrow> string \<Rightarrow> error + int" where
  "int_attr to_int e k =
     (case get e k of
        None \<Rightarrow> Inl TypeError
      | Some s \<Rightarrow> (case to_int s of None \<Rightarrow> Inl ValueError | Some n \<Rightarrow> Inr n))"

text \<open>
  One iteration of the loop over \<open>Trade\<close> elements: the commission is read first, under
  \<open>try\<close>/\<open>except (ValueError, TypeError)\<close>; then the keyword arguments of \<open>Trade(...)\<close>
  are evaluated in order, and the first failing \<open>float\<close> raises.
\<close>

definition parse_trade :: "(string \<Rightarrow> real option) \<Rightarrow> Element \<Rightarrow> error + Trade" where
  "parse_trade to_float trade_elem =
     (let ibc = (case float_attr to_float trade_elem ''ibCommission'' of
                   Inl _ \<Rightarrow> 0 | Inr x \<Rightarrow> x)
      in case float_attr to_float trade_elem ''quantity'' of
           Inl e \<Rightarrow> Inl e
         | Inr q \<Rightarrow>
        (case float_attr to_float trade_elem ''tradePrice'' of
           Inl e \<Rightarrow> Inl e
         | Inr p \<Rightarrow>
        (case float_attr to_float trade_elem ''fxRateToBase'' of
           Inl e \<Rightarrow> Inl e
         | Inr fx \<Rightarrow>
             Inr \<lparr> symbol = get trade_elem ''symbol'',
                   transactionType = get trade_elem ''transactionType'',
                   exchange = get trade_elem ''exchange'',
                   quantity = q,
                   tradePrice = p,
                   currency = get trade_elem ''currency'',
                   fxRateToBase = fx,
                   assetCategory = get trade_elem ''assetCategory'',
                   ibCommission = ibc,
                   ibCommissionCurrency = get trade_elem ''ibCommissionCurrency'',
                   tradeDate = get trade_elem ''tradeDate'' \<rparr>)))"

definition parse_lot :: "(string \<Rightarrow> real option) \<Rightarrow> Element \<Rightarrow> error + Lot" where
  "parse_lot to_float lot_elem =
     (case float_attr to_float lot_elem ''quantity'' of
        Inl e \<Rightarrow> Inl e
      | Inr q \<Rightarrow>
     (case float_attr to_float lot_elem ''tradePrice'' of
        Inl e \<Rightarrow> Inl e
      | Inr p \<Rightarrow>
     (case float_attr to_float lot_elem ''fxRateToBase'' of
        Inl e \<Rightarrow> Inl e
      | Inr fx \<Rightarrow>
          Inr \<lparr> lot_symbol = get lot_elem ''symbol'',
                lot_transactionType = get lot_elem ''transactionType'',
                lot_exchange = get lot_elem ''exchange'',
                lot_quantity = q,
                lot_tradePrice = p,
                lot_currency = get lot_elem ''currency'',
                lot_fxRateToBase = fx,
                lot_assetCategory = get lot_elem ''assetCategory'',
                lot_ibCommission = get lot_elem ''ibCommission'',
                lot_ibCommissionCurrency = get lot_elem ''ibCommissionCurrency'',
                lot_tradeDate = get lot_elem ''tradeDate'' \<rparr>)))"

text \<open>
  A \<open>for\<close> loop that appends one parsed item per element and lets the first exception
  escape: the loops over \<open>Trade\<close>, \<open>Lot\<close> and \<open>FlexStatement\<close> elements.
\<close>

fun parse_each :: "(Element \<Rightarrow> error + 'a) \<Rightarrow> Element list \<Rightarrow> error + 'a list" where
  "parse_each f [] = Inr []"
| "parse_each f (e # es) =
     (case f e of
        Inl err \<Rightarrow> Inl err
      | Inr x \<Rightarrow> (case parse_each f es of Inl err \<Rightarrow> Inl err | Inr xs \<Rightarrow> Inr (x # xs)))"

definition parse_trades :: "(string \<Rightarrow> real option) \<Rightarrow> Element \<Rightarrow> error + Trades" where
  "parse_trades to_float trades_elem =
     (case parse_each (parse_trade to_float) (findall trades_elem ''Trade'') of
        Inl e \<Rightarrow> Inl e
      | Inr ts \<Rightarrow>
     (case parse_each (parse_lot to_float) (findall trades_elem ''Lot'') of
        Inl e \<Rightarrow> Inl e
      | Inr ls \<Rightarrow> Inr \<lparr> trade = ts, lot = ls \<rparr>))"

definition parse_account_information :: "Element \<Rightarrow> AccountInformation" where
  "parse_account_information account_info_elem =
     \<lparr> ai_accountId = get account_info_elem ''accountId'',
       ai_acctAlias = get account_info_elem ''acctAlias'',
       ai_currency = get account_info_elem ''currency'',
       ai_dateOpened = get account_info_elem ''dateOpened'' \<rparr>"

definition parse_flex_statement :: "(string \<Rightarrow> real option) \<Rightarrow> Element \<Rightarrow> error + FlexStatement" where
  "parse_flex_statement to_float flex_statement_elem =
     (case (case find_elem flex_statement_elem ''Trades'' of
              None \<Rightarrow> Inr None
            | Some trades_elem \<Rightarrow> map_sum id Some (parse_trades to_float trades_elem)) of
        Inl e \<Rightarrow> Inl e
      | Inr tb \<Rightarrow>
          Inr \<lparr> accountId = get flex_statement_elem ''accountId'',
                fromDate = get flex_statement_elem ''fromDate'',
                toDate = get flex_statement_elem ''toDate'',
                period = get flex_statement_elem ''period'',
                whenGenerated = get flex_statement_elem ''whenGenerated'',
                accountInformation =
                  map_option parse_account_information
                    (find_elem flex_statement_elem ''AccountInformation''),
                trades = tb \<rparr>)"

text \<open>The body of \<open>parse_xml\<close> after \<open>ET.fromstring\<close> has returned the root.\<close>

definition parse_root ::
  "(string \<Rightarrow> real option) \<Rightarrow> (string \<Rightarrow> int option) \<Rightarrow> Element \<Rightarrow> error + FlexQueryResponse" where
  "parse_root to_float to_int root_elem =
     (case find_elem root_elem ''FlexStatements'' of
        None \<Rightarrow>
          Inr \<lparr> queryName = get root_elem ''queryName'', type = get root_elem ''type'',
                flexStatements = None \<rparr>
      | Some flex_statements_elem \<Rightarrow>
         (case int_attr to_int flex_statements_elem ''count'' of
            Inl e \<Rightarrow> Inl e
          | Inr n \<Rightarrow>
         (case parse_each (parse_flex_statement to_float)
                 (findall flex_statements_elem ''FlexStatement'') of
            Inl e \<Rightarrow> Inl e
          | Inr sts \<Rightarrow>
              Inr \<lparr> queryName = get root_elem ''queryName'', type = get root_elem ''type'',
                    flexStatements = Some \<lparr> count = n, flexStatement = sts \<rparr> \<rparr>)))"

definition parse_xml ::
  "(string \<Rightarrow> Element option) \<Rightarrow> (string \<Rightarrow> real option) \<Rightarrow> (string \<Rightarrow> int option) \<Rightarrow>
   string \<Rightarrow> error + FlexQueryResponse" where
  "parse_xml fromstring to_float to_int xml_string =
     (case fromstring xml_string of
        None \<Rightarrow> Inl ParseError
      | Some root_elem \<Rightarrow> parse_root to_float to_int root_elem)"

section \<open>\<open>process_xml_files\<close> and \<open>get_trades_from_xmls\<close>\<close>

text \<open>
  The folder is given as its listing: the file names in the order of \<open>os.listdir\<close>, each
  with what \<open>open\<close> and \<open>read\<close> give for it, the text or the exception raised. What the
  function prints is returned with the list it builds. The first \<open>except\<close> clause takes
  \<open>ET.ParseError\<close>, the second every other exception.
\<close>

datatype message =
    Error_parsing_XML_file string error
  | An_unexpected_error_occurred_processing string error

definition endswith :: "string \<Rightarrow> string \<Rightarrow> bool" where
  "endswith s suffix = (length suffix \<le> length s \<and> drop (length s - length suffix) s = suffix)"

definition read_and_parse ::
  "(string \<Rightarrow> Element option) \<Rightarrow> (string \<Rightarrow> real option) \<Rightarrow> (string \<Rightarrow> int option) \<Rightarrow>
   error + string \<Rightarrow> error + FlexQueryResponse" where
  "read_and_parse fromstring to_float to_int contents =
     (case contents of
        Inl e \<Rightarrow> Inl e
      | Inr xml_string \<Rightarrow> parse_xml fromstring to_float to_int xml_string)"

definition report :: "string \<Rightarrow> error \<Rightarrow> message" where
  "report filename e =
     (if e = ParseError then Error_parsing_XML_file filename e
      else An_unexpected_error_occurred_processing filename e)"

fun process_loop ::
  "(string \<Rightarrow> Element option) \<Rightarrow> (string \<Rightarrow> real option) \<Rightarrow> (string \<Rightarrow> int option) \<Rightarrow>
   (string \<times> (error + string)) list \<Rightarrow> FlexQueryResponse list \<times> message list \<Rightarrow>
   FlexQueryResponse list \<times> message list" where
  "process_loop fromstring to_float to_int [] st = st"
| "process_loop fromstring to_float to_int ((filename, contents) # files) (parsed_data_list, printed) =
     (if endswith filename ''.xml'' then
        (case read_and_parse fromstring to_float to_int contents of
           Inr parsed_data \<Rightarrow>
             process_loop fromstring to_float to_int files
               (parsed_data_list @ [parsed_data], printed)
         | Inl e \<Rightarrow>
             process_loop fromstring to_float to_int files
               (parsed_data_list, printed @ [report filename e]))
      else process_loop fromstring to_float to_int files (parsed_data_list, printed))"

definition process_xml_files ::
  "(string \<Rightarrow> Element option) \<Rightarrow> (string \<Rightarrow> real option) \<Rightarrow> (string \<Rightarrow> int option) \<Rightarrow>
   (string \<times> (error + string)) list \<Rightarrow> FlexQueryResponse list \<times> message list" where
  "process_xml_files fromstring to_float to_int folder =
     process_loop fromstring to_float to_int folder ([], [])"

definition get_trades_from_xmls ::
  "(string \<Rightarrow> Element option) \<Rightarrow> (string \<Rightarrow> real option) \<Rightarrow> (string \<Rightarrow> int option) \<Rightarrow>
   (string \<times> (error + string)) list \<Rightarrow> error + CgtCalculatorTrade list" where
  "get_trades_from_xmls fromstring to_float to_int folder =
     get_trades (fst (process_xml_files fromstring to_float to_int folder))"

section \<open>The traversal, stated on the parsed documents\<close>

text \<open>
  What the claims speak of: the trades of a statement and the statements of a document
  (none when the owner is absent), all trades of a batch in nested traversal order, the
  trades that pass the \<open>CASH\<close> test, and the documents in which every owner is present.
\<close>

definition not_cash :: "Trade \<Rightarrow> bool" where
  "not_cash t = (assetCategory t \<noteq> Some ''CASH'')"

definition statement_trades :: "FlexStatement \<Rightarrow> Trade list" where
  "statement_trades st = (case trades st of None \<Rightarrow> [] | Some tb \<Rightarrow> trade tb)"

definition doc_statements :: "FlexQueryResponse \<Rightarrow> FlexStatement list" where
  "doc_statements d = (case flexStatements d of None \<Rightarrow> [] | Some coll \<Rightarrow> flexStatement coll)"

definition all_trades :: "FlexQueryResponse list \<Rightarrow> Trade list" where
  "all_trades docs = concat (map (\<lambda>d. concat (map statement_trades (doc_statements d))) docs)"

definition complete_doc :: "FlexQueryResponse \<Rightarrow> bool" where
  "complete_doc d =
     (flexStatements d \<noteq> None \<and> list_all (\<lambda>st. trades st \<noteq> None) (doc_statements d))"

text \<open>An attribute that \<open>float\<close> rejects: absent, or present with a text that is no number.\<close>

definition missing_or_non_numeric :: "(string \<Rightarrow> real option) \<Rightarrow> Element \<Rightarrow> string \<Rightarrow> bool" where
  "missing_or_non_numeric to_float e k =
     (case get e k of None \<Rightarrow> True | Some s \<Rightarrow> to_float s = None)"

text \<open>What one entry of the folder adds to the list of parsed documents and to the output.\<close>

definition parsed_of ::
  "(string \<Rightarrow> Element option) \<Rightarrow> (string \<Rightarrow> real option) \<Rightarrow> (string \<Rightarrow> int option) \<Rightarrow>
   string \<times> (error + string) \<Rightarrow> FlexQueryResponse list" where
  "parsed_of fromstring to_float to_int entry =
     (if endswith (fst entry) ''.xml'' then
        (case read_and_parse fromstring to_float to_int (snd entry) of
           Inr d \<Rightarrow> [d] | Inl e \<Rightarrow> [])
      else [])"

definition printed_of ::
  "(string \<Rightarrow> Element option) \<Rightarrow> (string \<Rightarrow> real option) \<Rightarrow> (string \<Rightarrow> int option) \<Rightarrow>
   string \<times> (error + string) \<Rightarrow> message list" where
  "printed_of fromstring to_float to_int entry =
     (if endswith (fst entry) ''.xml'' then
        (case read_and_parse fromstring to_float to_int (snd entry) of
           Inr d \<Rightarrow> [] | Inl e \<Rightarrow> [report (fst entry) e])
      else [])"

section \<open>Sample inputs\<close>

text \<open>
  Finite tables that stand for \<open>float\<close>, \<open>int\<close> and \<open>ET.fromstring\<close> on the texts of the
  examples below; every other text is rejected. The general theorems hold for all
  functions in their place.
\<close>

definition sample_float :: "string \<Rightarrow> real option" where
  "sample_float = map_of [(''-10'', -10), (''150.0'', 150), (''1.0'', 1), (''0.79'', 0.79)]"

definition sample_int :: "string \<Rightarrow> int option" where
  "sample_int = map_of [(''1'', 1), (''2'', 2)]"

definition sample_fromstring :: "string \<Rightarrow> Element option" where
  "sample_fromstring = map_of [(''<FlexQueryResponse/>'', Element ''FlexQueryResponse'' [] [])]"

text \<open>The trade of the spec's scenario, as an element and as a parsed record.\<close>

definition aapl_elem :: Element where
  "aapl_elem = Element ''Trade''
     [(''symbol'', ''AAPL''), (''quantity'', ''-10''), (''tradePrice'', ''150.0''),
      (''currency'', ''USD''), (''fxRateToBase'', ''1.0''), (''ibCommission'', ''1.0''),
      (''ibCommissionCurrency'', ''USD''), (''assetCategory'', ''STK''),
      (''tradeDate'', ''2024-01-05'')] []"

definition aapl :: Trade where
  "aapl = \<lparr> symbol = Some ''AAPL'', transactionType = None, exchange = None, quantity = -10,
            tradePrice = 150, currency = Some ''USD'', fxRateToBase = 1,
            assetCategory = Some ''STK'', ibCommission = 1,
            ibCommissionCurrency = Some ''USD'', tradeDate = Some ''2024-01-05'' \<rparr>"

definition aapl_row :: CgtCalculatorTrade where
  "aapl_row = \<lparr> side = ''SELL'', date = Some ''2024-01-05'', company = Some ''AAPL'',
                shares = 10, price = 150, charges = 1, tax = 0 \<rparr>"

definition statement_of :: "Trades option \<Rightarrow> FlexStatement" where
  "statement_of tb = \<lparr> accountId = Some ''U1'', fromDate = None, toDate = None, period = None,
                       whenGenerated = None, accountInformation = None, trades = tb \<rparr>"

definition response_of :: "FlexStatement list \<Rightarrow> FlexQueryResponse" where
  "response_of sts = \<lparr> queryName = None, type = None,
                       flexStatements = Some \<lparr> count = 1, flexStatement = sts \<rparr> \<rparr>"

text \<open>
  Documents: a root around one statement with the given children; the same with the
  given attributes on the collection element; a root with no collection.
\<close>

definition doc_with :: "(string \<times> string) list \<Rightarrow> Element list \<Rightarrow> Element" where
  "doc_with coll_attrs statement_children =
     Element ''FlexQueryResponse'' []
       [Element ''FlexStatements'' coll_attrs
          [Element ''FlexStatement'' [(''accountId'', ''U1'')] statement_children]]"

definition doc_without_collection :: Element where
  "doc_without_collection = Element ''FlexQueryResponse'' [] []"

section \<open>Conversion of one trade\<close>

text \<open>
  C3. The side of the converted row is \<open>SELL\<close> exactly when the signed quantity is
  strictly below zero, and \<open>BUY\<close> exactly when it is zero or above; so a zero quantity
  gives \<open>BUY\<close>.
\<close>

theorem side_sell_iff_negative:
  "(side (convert t) = ''SELL'') = (quantity t < 0) \<and>
   (side (convert t) = ''BUY'') = (0 \<le> quantity t)"
  by (simp add: convert_def Trade_side_def not_less)

text \<open>
  C4. The price of the converted row is the absolute value of trade price times FX rate,
  and it is never negative, whatever the signs of the trade's fields.
\<close>

theorem price_abs_nonneg:
  "price (convert t) = \<bar>tradePrice t * fxRateToBase t\<bar> \<and> 0 \<le> price (convert t)"
  by (simp add: convert_def tradePriceInBaseCurrency_def)

text \<open>
  C2. The charges of the converted row are the absolute commission times the FX rate
  when the commission currency equals the currency field of the trade itself, and the
  absolute commission otherwise. The account's declared currency takes no part: the
  rows of a list of statements stay the same when the account information of every
  statement is replaced.
\<close>

theorem charges_rule:
  "charges (convert t) =
     (if ibCommissionCurrency t = currency t then \<bar>ibCommission t\<bar> * fxRateToBase t
      else \<bar>ibCommission t\<bar>) \<and>
   statement_loop (map (\<lambda>st. st\<lparr>accountInformation := a st\<rparr>) sts) acc =
     statement_loop sts acc"
proof
  show "charges (convert t) =
     (if ibCommissionCurrency t = currency t then \<bar>ibCommission t\<bar> * fxRateToBase t
      else \<bar>ibCommission t\<bar>)"
    by (simp add: convert_def ibCommissionInBaseCurrency_def)
  show "statement_loop (map (\<lambda>st. st\<lparr>accountInformation := a st\<rparr>) sts) acc =
     statement_loop sts acc"
    by (induction sts arbitrary: acc) (simp_all split: option.splits)
qed

text \<open>
  C5. The shares of the converted row are the absolute quantity cut down to a whole
  number: the integer \<open>n \<ge> 0\<close> with \<open>n \<le> |quantity| < n + 1\<close>. Nothing is rounded up and
  no quantity is refused; a quantity of \<open>-12.7\<close> gives 12 shares.
\<close>

theorem shares_truncation:
  "shares (convert t) = \<lfloor>\<bar>quantity t\<bar>\<rfloor> \<and>
   0 \<le> shares (convert t) \<and>
   of_int (shares (convert t)) \<le> \<bar>quantity t\<bar> \<and>
   \<bar>quantity t\<bar> < of_int (shares (convert t)) + 1"
  by (simp add: convert_def int_of_float_def)

theorem shares_truncation_example:
  "shares (convert (aapl\<lparr>quantity := -12.7\<rparr>)) = 12"
  using shares_truncation [of "aapl\<lparr>quantity := -12.7\<rparr>"] by simp

section \<open>The converter on a batch of parsed documents\<close>

lemma trade_loop_eq: "trade_loop txns acc = acc @ map convert (filter not_cash txns)"
  by (induction txns arbitrary: acc) (simp_all add: not_cash_def)

lemma statement_loop_eq:
  "statement_loop sts acc =
     (if list_all (\<lambda>st. trades st \<noteq> None) sts
      then Inr (acc @ map convert (filter not_cash (concat (map statement_trades sts))))
      else Inl AttributeError)"
  by (induction sts arbitrary: acc)
     (auto simp: trade_loop_eq statement_trades_def split: option.splits)

lemma data_loop_eq:
  "data_loop docs acc =
     (if list_all complete_doc docs
      then Inr (acc @ map convert (filter not_cash (all_trades docs)))
      else Inl AttributeError)"
  by (induction docs arbitrary: acc)
     (auto simp: statement_loop_eq complete_doc_def doc_statements_def all_trades_def
           split: option.splits)

lemma convert_aapl: "convert aapl = aapl_row"
  by (simp add: convert_def aapl_def aapl_row_def Trade_side_def int_of_float_def
        tradePriceInBaseCurrency_def ibCommissionInBaseCurrency_def)

text \<open>
  C6. Each trade of the batch gives no row when its asset category is the text \<open>CASH\<close>
  and exactly one row, its conversion, otherwise: whenever the converter returns, its
  rows are the concatenation of these contributions.
\<close>

theorem cash_filter:
  assumes "get_trades docs = Inr rows"
  shows "rows = concat (map (\<lambda>t. if assetCategory t = Some ''CASH'' then [] else [convert t])
                            (all_trades docs))"
proof -
  have flat: "map convert (filter not_cash ts) =
       concat (map (\<lambda>t. if assetCategory t = Some ''CASH'' then [] else [convert t]) ts)" for ts
    by (induction ts) (simp_all add: not_cash_def)
  from assms have "rows = map convert (filter not_cash (all_trades docs))"
    by (simp add: get_trades_def data_loop_eq split: if_splits)
  then show ?thesis by (simp only: flat)
qed

theorem cash_filter_example:
  "get_trades [response_of [statement_of (Some \<lparr> trade = [aapl\<lparr>assetCategory := Some ''CASH''\<rparr>, aapl],
                                                lot = [] \<rparr>)]] = Inr [aapl_row] \<and>
   [aapl_row] =
     concat (map (\<lambda>t. if assetCategory t = Some ''CASH'' then [] else [convert t])
       (all_trades [response_of [statement_of
          (Some \<lparr> trade = [aapl\<lparr>assetCategory := Some ''CASH''\<rparr>, aapl], lot = [] \<rparr>)]]))"
proof -
  have run: "get_trades [response_of [statement_of
      (Some \<lparr> trade = [aapl\<lparr>assetCategory := Some ''CASH''\<rparr>, aapl], lot = [] \<rparr>)]] = Inr [aapl_row]"
    by (simp add: get_trades_def response_of_def statement_of_def convert_aapl)
       (simp add: aapl_def)
  from cash_filter [OF run] run show ?thesis by simp
qed

text \<open>
  C8. The converter returns exactly when every document has its statement collection
  and every statement its trade block, and then its rows are the conversions of the
  trades that are not \<open>CASH\<close>, in the order of the nested traversal: documents in the
  order given, statements in the order of the collection, trades in the order of the
  trade block. Otherwise it raises AttributeError.
\<close>

theorem ledger_order:
  "get_trades docs =
     (if list_all complete_doc docs
      then Inr (map convert (filter not_cash (all_trades docs)))
      else Inl AttributeError)"
  by (simp add: get_trades_def data_loop_eq)


text \<open>
  C1. Evaluation of the parser and the converter on three documents. A root with no
  statement collection parses to a response whose collection is absent, and the
  converter raises AttributeError on it, also when run from the folder; a statement
  with no trade block parses to a statement whose trade block is absent, and the
  converter raises AttributeError on it; a trade block with no trades gives no rows.
\<close>

theorem absent_owner_raises:
  "get_trades_from_xmls sample_fromstring sample_float sample_int
     [(''a.xml'', Inr ''<FlexQueryResponse/>'')] = Inl AttributeError \<and>
   parse_root sample_float sample_int doc_without_collection =
     Inr \<lparr> queryName = None, type = None, flexStatements = None \<rparr> \<and>
   get_trades [\<lparr> queryName = None, type = None, flexStatements = None \<rparr>] =
     Inl AttributeError \<and>
   parse_root sample_float sample_int (doc_with [(''count'', ''1'')] []) =
     Inr (response_of [statement_of None]) \<and>
   get_trades [response_of [statement_of None]] = Inl AttributeError \<and>
   parse_root sample_float sample_int (doc_with [(''count'', ''1'')] [Element ''Trades'' [] []]) =
     Inr (response_of [statement_of (Some \<lparr> trade = [], lot = [] \<rparr>)]) \<and>
   get_trades [response_of [statement_of (Some \<lparr> trade = [], lot = [] \<rparr>)]] = Inr []"
proof (intro conjI)
  show "get_trades_from_xmls sample_fromstring sample_float sample_int
     [(''a.xml'', Inr ''<FlexQueryResponse/>'')] = Inl AttributeError"
    by (simp add: get_trades_from_xmls_def process_xml_files_def endswith_def
          read_and_parse_def parse_xml_def sample_fromstring_def parse_root_def
          find_elem_def get_def get_trades_def)
  show "parse_root sample_float sample_int doc_without_collection =
     Inr \<lparr> queryName = None, type = None, flexStatements = None \<rparr>"
    by (simp add: doc_without_collection_def parse_root_def find_elem_def get_def)
  show "get_trades [\<lparr> queryName = None, type = None, flexStatements = None \<rparr>] =
     Inl AttributeError"
    by (simp add: get_trades_def)
  show "parse_root sample_float sample_int (doc_with [(''count'', ''1'')] []) =
     Inr (response_of [statement_of None])"
    by (simp add: doc_with_def parse_root_def find_elem_def findall_def get_def int_attr_def
          sample_int_def parse_flex_statement_def response_of_def statement_of_def)
  show "get_trades [response_of [statement_of None]] = Inl AttributeError"
    by (simp add: get_trades_def response_of_def statement_of_def)
  show "parse_root sample_float sample_int (doc_with [(''count'', ''1'')] [Element ''Trades'' [] []]) =
     Inr (response_of [statement_of (Some \<lparr> trade = [], lot = [] \<rparr>)])"
    by (simp add: doc_with_def parse_root_def find_elem_def findall_def get_def int_attr_def
          sample_int_def parse_flex_statement_def parse_trades_def response_of_def
          statement_of_def)
  show "get_trades [response_of [statement_of (Some \<lparr> trade = [], lot = [] \<rparr>)]] = Inr []"
    by (simp add: get_trades_def response_of_def statement_of_def)
qed

section \<open>Strict and lenient fields of the parser\<close>

lemma float_attr_fails_iff:
  "(\<exists>e. float_attr to_float el k = Inl e) = missing_or_non_numeric to_float el k"
  by (auto simp: float_attr_def missing_or_non_numeric_def split: option.splits)

lemma parse_trade_fails:
  "missing_or_non_numeric to_float te ''quantity'' \<or>
   missing_or_non_numeric to_float te ''tradePrice'' \<or>
   missing_or_non_numeric to_float te ''fxRateToBase'' \<Longrightarrow>
   \<exists>e. parse_trade to_float te = Inl e"
  unfolding float_attr_fails_iff [symmetric]
  by (auto simp: parse_trade_def Let_def split: sum.splits)

lemma parse_each_fails:
  "x \<in> set xs \<Longrightarrow> f x = Inl e \<Longrightarrow> \<exists>e'. parse_each f xs = Inl e'"
  by (induction xs) (auto split: sum.splits)

lemma parse_trades_fails:
  assumes "te \<in> set (findall tb ''Trade'')" and "parse_trade to_float te = Inl e"
  shows "\<exists>e'. parse_trades to_float tb = Inl e'"
proof -
  from parse_each_fails [of te _ "parse_trade to_float", OF assms] obtain e' where
    "parse_each (parse_trade to_float) (findall tb ''Trade'') = Inl e'" ..
  then show ?thesis by (simp add: parse_trades_def)
qed

lemma parse_flex_statement_fails:
  assumes "find_elem st ''Trades'' = Some tb" and "parse_trades to_float tb = Inl e"
  shows "\<exists>e'. parse_flex_statement to_float st = Inl e'"
  using assms by (simp add: parse_flex_statement_def)

lemma parse_root_fails:
  assumes "find_elem root_elem ''FlexStatements'' = Some fs"
    and "st \<in> set (findall fs ''FlexStatement'')"
    and "parse_flex_statement to_float st = Inl e"
  shows "\<exists>e'. parse_root to_float to_int root_elem = Inl e'"
proof -
  from parse_each_fails [of st _ "parse_flex_statement to_float", OF assms(2,3)] obtain e' where
    "parse_each (parse_flex_statement to_float) (findall fs ''FlexStatement'') = Inl e'" ..
  with assms(1) show ?thesis
    by (simp add: parse_root_def split: sum.splits)
qed

lemma parse_trade_lenient:
  assumes "missing_or_non_numeric to_float te ''ibCommission''"
    and "\<not> missing_or_non_numeric to_float te ''quantity''"
    and "\<not> missing_or_non_numeric to_float te ''tradePrice''"
    and "\<not> missing_or_non_numeric to_float te ''fxRateToBase''"
  shows "\<exists>t. parse_trade to_float te = Inr t \<and> ibCommission t = 0"
  using assms
  by (auto simp: parse_trade_def float_attr_def missing_or_non_numeric_def Let_def
           split: option.splits)

text \<open>
  C7. If the quantity, the trade price or the FX rate of a trade element is missing or
  not a number, then the parse of every document that holds this element (in the trade
  block of a statement of the collection) fails. If only the commission is missing or
  not a number, the trade element is parsed, its commission is 0 and the charges of its
  converted row are 0.
\<close>

theorem numeric_fields_strict_commission_lenient:
  "((missing_or_non_numeric to_float te ''quantity'' \<or>
     missing_or_non_numeric to_float te ''tradePrice'' \<or>
     missing_or_non_numeric to_float te ''fxRateToBase'') \<longrightarrow>
    fromstring xml_string = Some root_elem \<longrightarrow>
    find_elem root_elem ''FlexStatements'' = Some fs \<longrightarrow>
    st \<in> set (findall fs ''FlexStatement'') \<longrightarrow>
    find_elem st ''Trades'' = Some tb \<longrightarrow>
    te \<in> set (findall tb ''Trade'') \<longrightarrow>
    (\<exists>e. parse_xml fromstring to_float to_int xml_string = Inl e)) \<and>
   (missing_or_non_numeric to_float te ''ibCommission'' \<longrightarrow>
    \<not> missing_or_non_numeric to_float te ''quantity'' \<longrightarrow>
    \<not> missing_or_non_numeric to_float te ''tradePrice'' \<longrightarrow>
    \<not> missing_or_non_numeric to_float te ''fxRateToBase'' \<longrightarrow>
    (\<exists>t. parse_trade to_float te = Inr t \<and> ibCommission t = 0 \<and> charges (convert t) = 0))"
proof (intro conjI impI)
  assume bad: "missing_or_non_numeric to_float te ''quantity'' \<or>
     missing_or_non_numeric to_float te ''tradePrice'' \<or>
     missing_or_non_numeric to_float te ''fxRateToBase''"
    and doc: "fromstring xml_string = Some root_elem"
      "find_elem root_elem ''FlexStatements'' = Some fs"
      "st \<in> set (findall fs ''FlexStatement'')"
      "find_elem st ''Trades'' = Some tb"
      "te \<in> set (findall tb ''Trade'')"
  from parse_trade_fails [OF bad] obtain e1 where "parse_trade to_float te = Inl e1" ..
  from parse_trades_fails [OF doc(5) this] obtain e2 where "parse_trades to_float tb = Inl e2" ..
  from parse_flex_statement_fails [OF doc(4) this]
  obtain e3 where "parse_flex_statement to_float st = Inl e3" ..
  from parse_root_fails [OF doc(2,3) this]
  obtain e4 where "parse_root to_float to_int root_elem = Inl e4" ..
  with doc(1) show "\<exists>e. parse_xml fromstring to_float to_int xml_string = Inl e"
    by (simp add: parse_xml_def)
next
  assume "missing_or_non_numeric to_float te ''ibCommission''"
    "\<not> missing_or_non_numeric to_float te ''quantity''"
    "\<not> missing_or_non_numeric to_float te ''tradePrice''"
    "\<not> missing_or_non_numeric to_float te ''fxRateToBase''"
  from parse_trade_lenient [OF this] obtain t where
    "parse_trade to_float te = Inr t" "ibCommission t = 0" by blast
  then show "\<exists>t. parse_trade to_float te = Inr t \<and> ibCommission t = 0 \<and> charges (convert t) = 0"
    by (simp add: convert_def ibCommissionInBaseCurrency_def)
qed

theorem numeric_fields_strict_commission_lenient_example:
  "missing_or_non_numeric sample_float
     (Element ''Trade'' [(''quantity'', ''abc''), (''tradePrice'', ''150.0''),
                         (''fxRateToBase'', ''1.0''), (''ibCommission'', ''1.0'')] []) ''quantity'' \<and>
   (\<exists>e. parse_xml
      (\<lambda>s. Some (doc_with [(''count'', ''1'')]
         [Element ''Trades'' []
            [Element ''Trade'' [(''quantity'', ''abc''), (''tradePrice'', ''150.0''),
                                (''fxRateToBase'', ''1.0''), (''ibCommission'', ''1.0'')] []]]))
      sample_float sample_int ''doc'' = Inl e) \<and>
   missing_or_non_numeric sample_float
     (Element ''Trade'' [(''quantity'', ''-10''), (''tradePrice'', ''150.0''),
                         (''fxRateToBase'', ''0.79'')] []) ''ibCommission'' \<and>
   (\<exists>t. parse_trade sample_float
      (Element ''Trade'' [(''quantity'', ''-10''), (''tradePrice'', ''150.0''),
                          (''fxRateToBase'', ''0.79'')] []) = Inr t \<and>
        ibCommission t = 0 \<and> charges (convert t) = 0)"
proof -
  let ?bad = "Element ''Trade'' [(''quantity'', ''abc''), (''tradePrice'', ''150.0''),
                         (''fxRateToBase'', ''1.0''), (''ibCommission'', ''1.0'')] []"
  let ?tb = "Element ''Trades'' [] [?bad]"
  let ?st = "Element ''FlexStatement'' [(''accountId'', ''U1'')] [?tb]"
  let ?fs = "Element ''FlexStatements'' [(''count'', ''1'')] [?st]"
  let ?doc = "doc_with [(''count'', ''1'')] [?tb]"
  let ?plain = "Element ''Trade'' [(''quantity'', ''-10''), (''tradePrice'', ''150.0''),
                          (''fxRateToBase'', ''0.79'')] []"
  have bad: "missing_or_non_numeric sample_float ?bad ''quantity''"
    by (simp add: missing_or_non_numeric_def get_def sample_float_def)
  have place: "find_elem ?doc ''FlexStatements'' = Some ?fs"
    "?st \<in> set (findall ?fs ''FlexStatement'')"
    "find_elem ?st ''Trades'' = Some ?tb"
    "?bad \<in> set (findall ?tb ''Trade'')"
    by (simp_all add: doc_with_def find_elem_def findall_def)
  have plain: "missing_or_non_numeric sample_float ?plain ''ibCommission''"
    "\<not> missing_or_non_numeric sample_float ?plain ''quantity''"
    "\<not> missing_or_non_numeric sample_float ?plain ''tradePrice''"
    "\<not> missing_or_non_numeric sample_float ?plain ''fxRateToBase''"
    by (simp_all add: missing_or_non_numeric_def get_def sample_float_def)
  from numeric_fields_strict_commission_lenient
         [where to_float = sample_float and te = ?bad and fromstring = "\<lambda>s. Some ?doc"
            and xml_string = "''doc''" and root_elem = ?doc and fs = ?fs and st = ?st
            and tb = ?tb and to_int = sample_int]
       bad place
  have first: "\<exists>e. parse_xml (\<lambda>s. Some ?doc) sample_float sample_int ''doc'' = Inl e"
    by blast
  from numeric_fields_strict_commission_lenient
         [where to_float = sample_float and te = ?plain] plain
  have second: "\<exists>t. parse_trade sample_float ?plain = Inr t \<and>
        ibCommission t = 0 \<and> charges (convert t) = 0"
    by blast
  from bad first plain(1) second show ?thesis by blast
qed

text \<open>
  C10. When the root has a statement-collection element whose \<open>count\<close> attribute is
  absent, or present with a text that \<open>int\<close> rejects, \<open>parse_xml\<close> raises, TypeError in
  the first case and ValueError in the second, whatever the rest of the document is.
\<close>

theorem count_is_mandatory:
  assumes "fromstring xml_string = Some root_elem"
    and "find_elem root_elem ''FlexStatements'' = Some fs"
    and "get fs ''count'' = None \<or> (\<exists>v. get fs ''count'' = Some v \<and> to_int v = None)"
  shows "parse_xml fromstring to_float to_int xml_string =
           Inl (if get fs ''count'' = None then TypeError else ValueError)"
  using assms by (auto simp: parse_xml_def parse_root_def int_attr_def)

theorem count_is_mandatory_example:
  "parse_xml (\<lambda>s. Some (doc_with [] [Element ''Trades'' [] [aapl_elem]]))
     sample_float sample_int ''doc'' = Inl TypeError \<and>
   parse_xml (\<lambda>s. Some (doc_with [(''count'', ''one'')] [Element ''Trades'' [] [aapl_elem]]))
     sample_float sample_int ''doc'' = Inl ValueError \<and>
   parse_xml (\<lambda>s. Some (doc_with [(''count'', ''1'')] [Element ''Trades'' [] [aapl_elem]]))
     sample_float sample_int ''doc'' =
       Inr (response_of [statement_of (Some \<lparr> trade = [aapl], lot = [] \<rparr>)])"
proof -
  let ?ch = "[Element ''FlexStatement'' [(''accountId'', ''U1'')] [Element ''Trades'' [] [aapl_elem]]]"
  have absent: "parse_xml (\<lambda>s. Some (doc_with [] [Element ''Trades'' [] [aapl_elem]]))
     sample_float sample_int ''doc'' = Inl TypeError"
    using count_is_mandatory
      [where fromstring = "\<lambda>s. Some (doc_with [] [Element ''Trades'' [] [aapl_elem]])"
         and xml_string = "''doc''"
         and root_elem = "doc_with [] [Element ''Trades'' [] [aapl_elem]]"
         and fs = "Element ''FlexStatements'' [] ?ch"
         and to_int = sample_int and to_float = sample_float]
    by (simp add: doc_with_def find_elem_def get_def)
  have bad: "parse_xml (\<lambda>s. Some (doc_with [(''count'', ''one'')] [Element ''Trades'' [] [aapl_elem]]))
     sample_float sample_int ''doc'' = Inl ValueError"
    using count_is_mandatory
      [where fromstring = "\<lambda>s. Some (doc_with [(''count'', ''one'')] [Element ''Trades'' [] [aapl_elem]])"
         and xml_string = "''doc''"
         and root_elem = "doc_with [(''count'', ''one'')] [Element ''Trades'' [] [aapl_elem]]"
         and fs = "Element ''FlexStatements'' [(''count'', ''one'')] ?ch"
         and to_int = sample_int and to_float = sample_float]
    by (simp add: doc_with_def find_elem_def get_def sample_int_def)
  have trade: "parse_trade sample_float aapl_elem = Inr aapl"
    by (simp add: parse_trade_def float_attr_def get_def aapl_elem_def sample_float_def aapl_def)
  have tag: "tag aapl_elem = ''Trade''"
    by (simp add: aapl_elem_def)
  have good: "parse_xml (\<lambda>s. Some (doc_with [(''count'', ''1'')] [Element ''Trades'' [] [aapl_elem]]))
     sample_float sample_int ''doc'' =
       Inr (response_of [statement_of (Some \<lparr> trade = [aapl], lot = [] \<rparr>)])"
    by (simp add: parse_xml_def doc_with_def parse_root_def find_elem_def findall_def get_def
          int_attr_def sample_int_def parse_flex_statement_def parse_trades_def trade tag
          response_of_def statement_of_def)
  from absent bad good show ?thesis by blast
qed

section \<open>Failures in a batch of files\<close>

lemma process_loop_eq:
  "process_loop fs tf ti folder (ds, ms) =
     (ds @ concat (map (parsed_of fs tf ti) folder), ms @ concat (map (printed_of fs tf ti) folder))"
  by (induction folder arbitrary: ds ms)
     (auto simp: parsed_of_def printed_of_def split: sum.splits)

lemma process_xml_files_eq:
  "process_xml_files fs tf ti folder =
     (concat (map (parsed_of fs tf ti) folder), concat (map (printed_of fs tf ti) folder))"
  by (simp add: process_xml_files_def process_loop_eq)

lemma parsed_file_contributes:
  assumes "entry \<in> set folder" and "endswith (fst entry) ''.xml''"
    and "read_and_parse fs tf ti (snd entry) = Inr d"
  shows "d \<in> set (fst (process_xml_files fs tf ti folder))"
proof -
  from assms(2,3) have "d \<in> set (parsed_of fs tf ti entry)"
    by (simp add: parsed_of_def)
  with assms(1) show ?thesis
    by (auto simp: process_xml_files_eq)
qed

text \<open>
  C9. Let a file with a name ending in \<open>.xml\<close> fail to be read or parsed. Then the
  documents returned for the folder are those of the files before it followed by those
  of the files after it; the output is that of the files before it, one message that
  carries the file's name and the error, and that of the files after it; and every
  other \<open>.xml\<close> file of the folder that parses is among the documents returned.
\<close>

theorem failure_is_reported_and_skipped:
  assumes "endswith filename ''.xml''"
    and "read_and_parse fs tf ti contents = Inl e"
  shows "fst (process_xml_files fs tf ti (before @ (filename, contents) # after)) =
           fst (process_xml_files fs tf ti before) @ fst (process_xml_files fs tf ti after) \<and>
         snd (process_xml_files fs tf ti (before @ (filename, contents) # after)) =
           snd (process_xml_files fs tf ti before) @ report filename e #
           snd (process_xml_files fs tf ti after) \<and>
         (report filename e = Error_parsing_XML_file filename e \<or>
          report filename e = An_unexpected_error_occurred_processing filename e) \<and>
         (\<forall>entry \<in> set (before @ after). \<forall>d.
            endswith (fst entry) ''.xml'' \<longrightarrow>
            read_and_parse fs tf ti (snd entry) = Inr d \<longrightarrow>
            d \<in> set (fst (process_xml_files fs tf ti (before @ (filename, contents) # after))))"
proof (intro conjI ballI allI impI)
  show "fst (process_xml_files fs tf ti (before @ (filename, contents) # after)) =
          fst (process_xml_files fs tf ti before) @ fst (process_xml_files fs tf ti after)"
    using assms by (simp add: process_xml_files_eq parsed_of_def)
  show "snd (process_xml_files fs tf ti (before @ (filename, contents) # after)) =
          snd (process_xml_files fs tf ti before) @ report filename e #
          snd (process_xml_files fs tf ti after)"
    using assms by (simp add: process_xml_files_eq printed_of_def)
  show "report filename e = Error_parsing_XML_file filename e \<or>
        report filename e = An_unexpected_error_occurred_processing filename e"
    by (simp add: report_def)
next
  fix entry d
  assume "entry \<in> set (before @ after)" and ok: "endswith (fst entry) ''.xml''"
    "read_and_parse fs tf ti (snd entry) = Inr d"
  then have "entry \<in> set (before @ (filename, contents) # after)" by auto
  from parsed_file_contributes [OF this ok]
  show "d \<in> set (fst (process_xml_files fs tf ti (before @ (filename, contents) # after)))" .
qed

theorem failure_is_reported_and_skipped_example:
  "endswith ''b.xml'' ''.xml'' \<and>
   read_and_parse sample_fromstring sample_float sample_int (Inr ''<FlexQueryResponse'') =
     Inl ParseError \<and>
   process_xml_files sample_fromstring sample_float sample_int
     [(''a.xml'', Inr ''<FlexQueryResponse/>''), (''b.xml'', Inr ''<FlexQueryResponse''),
      (''notes.txt'', Inr ''<FlexQueryResponse/>''), (''c.xml'', Inl OSError),
      (''d.xml'', Inr ''<FlexQueryResponse/>'')] =
     ([\<lparr> queryName = None, type = None, flexStatements = None \<rparr>,
       \<lparr> queryName = None, type = None, flexStatements = None \<rparr>],
      [Error_parsing_XML_file ''b.xml'' ParseError,
       An_unexpected_error_occurred_processing ''c.xml'' OSError])"
proof -
  have name: "endswith ''b.xml'' ''.xml''"
    by (simp add: endswith_def)
  have fails: "read_and_parse sample_fromstring sample_float sample_int
      (Inr ''<FlexQueryResponse'') = Inl ParseError"
    by (simp add: read_and_parse_def parse_xml_def sample_fromstring_def)
  have one: "process_xml_files sample_fromstring sample_float sample_int
      [(''a.xml'', Inr ''<FlexQueryResponse/>'')] =
      ([\<lparr> queryName = None, type = None, flexStatements = None \<rparr>], [])"
    by (simp add: process_xml_files_def endswith_def read_and_parse_def parse_xml_def
          sample_fromstring_def parse_root_def find_elem_def get_def)
  have rest: "process_xml_files sample_fromstring sample_float sample_int
      [(''notes.txt'', Inr ''<FlexQueryResponse/>''), (''c.xml'', Inl OSError),
       (''d.xml'', Inr ''<FlexQueryResponse/>'')] =
      ([\<lparr> queryName = None, type = None, flexStatements = None \<rparr>],
       [An_unexpected_error_occurred_processing ''c.xml'' OSError])"
    by (simp add: process_xml_files_def endswith_def read_and_parse_def parse_xml_def
          sample_fromstring_def parse_root_def find_elem_def get_def report_def)
  from failure_is_reported_and_skipped
         [OF name fails, of "[(''a.xml'', Inr ''<FlexQueryResponse/>'')]"
            "[(''notes.txt'', Inr ''<FlexQueryResponse/>''), (''c.xml'', Inl OSError),
              (''d.xml'', Inr ''<FlexQueryResponse/>'')]"]
  have "process_xml_files sample_fromstring sample_float sample_int
     ([(''a.xml'', Inr ''<FlexQueryResponse/>'')] @ (''b.xml'', Inr ''<FlexQueryResponse'') #
      [(''notes.txt'', Inr ''<FlexQueryResponse/>''), (''c.xml'', Inl OSError),
       (''d.xml'', Inr ''<FlexQueryResponse/>'')]) =
     ([\<lparr> queryName = None, type = None, flexStatements = None \<rparr>,
       \<lparr> queryName = None, type = None, flexStatements = None \<rparr>],
      [Error_parsing_XML_file ''b.xml'' ParseError,
       An_unexpected_error_occurred_processing ''c.xml'' OSError])"
    by (simp add: one rest report_def prod_eq_iff)
  with name fails show ?thesis by simp
qed

end
